theory Spec2Isabelle
  imports Main "HOL-Library.List_Lexorder" "HOL-Library.Char_ord" "HOL-Library.Product_Lexorder"
begin

section \<open>Python values and exceptions\<close>

text \<open>
  The values that cross the interfaces of the memory system: parameter maps, tags,
  metadata, results. A dict is an association list with string keys, in insertion order.
  Floats are not modelled; \<open>execution_time_ms\<close> is an integer number of milliseconds.
\<close>

datatype pyval =
    PNone
  | PBool bool
  | PInt int
  | PStr string
  | PList "pyval list"
  | PDict "(string \<times> pyval) list"

text \<open>Python truthiness, as \<^verbatim>\<open>if x:\<close>, \<^verbatim>\<open>x or y\<close> and \<^verbatim>\<open>a if x else b\<close> test it.\<close>

fun truthy :: "pyval \<Rightarrow> bool" where
  "truthy PNone = False"
| "truthy (PBool b) = b"
| "truthy (PInt i) = (i \<noteq> 0)"
| "truthy (PStr s) = (s \<noteq> [])"
| "truthy (PList xs) = (xs \<noteq> [])"
| "truthy (PDict kvs) = (kvs \<noteq> [])"

text \<open>\<^verbatim>\<open>x or y\<close> when evaluating \<open>y\<close> has no effect.\<close>

definition py_or :: "pyval \<Rightarrow> pyval \<Rightarrow> pyval" where
  "py_or x y = (if truthy x then x else y)"

text \<open>An optional string argument (\<^verbatim>\<open>str = None\<close>) and its truthiness.\<close>

fun truthy_str :: "string option \<Rightarrow> bool" where
  "truthy_str None = False"
| "truthy_str (Some s) = (s \<noteq> [])"

fun py_of_str :: "string option \<Rightarrow> pyval" where
  "py_of_str None = PNone"
| "py_of_str (Some s) = PStr s"

text \<open>
  Exceptions are values: the class and the message. \<open>exn\<close> holds the exceptions derived
  from \<^verbatim>\<open>Exception\<close>, those an \<^verbatim>\<open>except Exception\<close> clause catches.
\<close>

datatype exn =
    AttributeError string
  | TypeError string
  | OperationalError string
  | IntegrityError string
  | OverflowError string
  | OtherError string string

text \<open>\<^verbatim>\<open>str(e)\<close>: the message.\<close>

fun str_exn :: "exn \<Rightarrow> string" where
  "str_exn (AttributeError m) = m"
| "str_exn (TypeError m) = m"
| "str_exn (OperationalError m) = m"
| "str_exn (IntegrityError m) = m"
| "str_exn (OverflowError m) = m"
| "str_exn (OtherError c m) = m"

text \<open>
  What an awaited coroutine may raise: an exception derived from \<^verbatim>\<open>Exception\<close>, or one
  derived from \<^verbatim>\<open>BaseException\<close> only (\<^verbatim>\<open>asyncio.CancelledError\<close>, \<^verbatim>\<open>KeyboardInterrupt\<close>,
  \<^verbatim>\<open>SystemExit\<close>, \<^verbatim>\<open>GeneratorExit\<close>), given by its class and message.
\<close>

datatype raised = Exc exn | BaseExc string string


section \<open>The store primitive: tables, queries and updates\<close>

text \<open>
  What \<^verbatim>\<open>sqlite3\<close> binds and stores: \<^verbatim>\<open>None\<close> as NULL, a \<^verbatim>\<open>str\<close> as TEXT, an
  \<^verbatim>\<open>int\<close> as INTEGER. The arguments of the domain operations have the types their
  signatures annotate, so a TEXT column is only ever compared with a text or NULL.
\<close>

datatype sqlval = Null | Text string | Integer int

fun bind_str :: "string option \<Rightarrow> sqlval" where
  "bind_str None = Null"
| "bind_str (Some s) = Text s"

fun py_of_sql :: "sqlval \<Rightarrow> pyval" where
  "py_of_sql Null = PNone"
| "py_of_sql (Text s) = PStr s"
| "py_of_sql (Integer i) = PInt i"

text \<open>
  A row is the dict \<^verbatim>\<open>dict(row)\<close> gives: column names with their values, in column
  order. A stored row lists every column of its table (\<open>execute_insert\<close> builds it so);
  reading a column a row does not list gives NULL.
\<close>

type_synonym row = "(string \<times> sqlval) list"

definition row_get :: "row \<Rightarrow> string \<Rightarrow> sqlval" where
  "row_get r c = (case map_of r c of Some v \<Rightarrow> v | None \<Rightarrow> Null)"

text \<open>A table's schema, from its \<^verbatim>\<open>CREATE TABLE IF NOT EXISTS\<close> statement.\<close>

record schema =
  table_name :: string
  columns :: "string list"
  primary_key :: "string list"

text \<open>
  The conjuncts of the \<^verbatim>\<open>WHERE\<close> clauses of the source: \<^verbatim>\<open>col = ?\<close>, \<^verbatim>\<open>col IS ?\<close> and
  \<^verbatim>\<open>col >= ?\<close>. A comparison with NULL by \<^verbatim>\<open>=\<close> or \<^verbatim>\<open>>=\<close> is never true; \<^verbatim>\<open>IS\<close> is
  equality that also holds between two NULLs. Texts compare bytewise; an integer sorts
  before every text.
\<close>

datatype cond = Eq string sqlval | Is string sqlval | Ge string sqlval

fun cond_column :: "cond \<Rightarrow> string" where
  "cond_column (Eq c v) = c"
| "cond_column (Is c v) = c"
| "cond_column (Ge c v) = c"

fun cond_value :: "cond \<Rightarrow> sqlval" where
  "cond_value (Eq c v) = v"
| "cond_value (Is c v) = v"
| "cond_value (Ge c v) = v"

fun sql_eq :: "sqlval \<Rightarrow> sqlval \<Rightarrow> bool" where
  "sql_eq Null b = False"
| "sql_eq a Null = False"
| "sql_eq a b = (a = b)"

fun sql_ge :: "sqlval \<Rightarrow> sqlval \<Rightarrow> bool" where
  "sql_ge Null b = False"
| "sql_ge a Null = False"
| "sql_ge (Integer a) (Integer b) = (b \<le> a)"
| "sql_ge (Integer a) (Text b) = False"
| "sql_ge (Text a) (Integer b) = True"
| "sql_ge (Text a) (Text b) = (b \<le> a)"

fun cond_true :: "row \<Rightarrow> cond \<Rightarrow> bool" where
  "cond_true r (Eq c v) = sql_eq (row_get r c) v"
| "cond_true r (Is c v) = (row_get r c = v)"
| "cond_true r (Ge c v) = sql_ge (row_get r c) v"

text \<open>The order of \<^verbatim>\<open>ORDER BY\<close>: NULL first, then integers, then texts.\<close>

fun sort_key_of :: "sqlval \<Rightarrow> nat \<times> int \<times> string" where
  "sort_key_of Null = (0, 0, [])"
| "sort_key_of (Integer i) = (1, i, [])"
| "sort_key_of (Text s) = (2, 0, s)"

text \<open>A Python int is bound as a 64-bit integer; a larger one raises.\<close>

fun bindable :: "sqlval \<Rightarrow> bool" where
  "bindable (Integer i) = (- (2 ^ 63) \<le> i \<and> i < 2 ^ 63)"
| "bindable v = True"

definition missing_columns :: "schema \<Rightarrow> string list \<Rightarrow> string list" where
  "missing_columns sch cs = filter (\<lambda>c. c \<notin> set (columns sch)) cs"

text \<open>
  A \<^verbatim>\<open>SELECT\<close> of the source: the result columns (\<open>[]\<close> for \<^verbatim>\<open>*\<close>), the conjuncts of
  \<^verbatim>\<open>WHERE\<close>, the column of \<^verbatim>\<open>ORDER BY ... DESC\<close> if any and the bound \<^verbatim>\<open>LIMIT\<close> if any.
\<close>

record query =
  q_select :: "string list"
  q_where :: "cond list"
  q_order_desc :: "string option"
  q_limit :: "int option"

definition project :: "string list \<Rightarrow> row \<Rightarrow> row" where
  "project cs r = (if cs = [] then r else map (\<lambda>c. (c, row_get r c)) cs)"

text \<open>
  Rows without \<^verbatim>\<open>ORDER BY\<close> come in insertion order, and so do rows with equal keys
  under \<^verbatim>\<open>ORDER BY ... DESC\<close>. A negative \<^verbatim>\<open>LIMIT\<close> is no limit.
\<close>

definition apply_order :: "string option \<Rightarrow> row list \<Rightarrow> row list" where
  "apply_order ob rws =
     (case ob of None \<Rightarrow> rws
      | Some c \<Rightarrow> rev (sort_key (\<lambda>r. sort_key_of (row_get r c)) (rev rws)))"

definition apply_limit :: "int option \<Rightarrow> row list \<Rightarrow> row list" where
  "apply_limit lim rws =
     (case lim of None \<Rightarrow> rws
      | Some k \<Rightarrow> if k < 0 then rws else take (nat k) rws)"

definition query_columns :: "query \<Rightarrow> string list" where
  "query_columns q =
     q_select q @ map cond_column (q_where q) @ (case q_order_desc q of None \<Rightarrow> [] | Some c \<Rightarrow> [c])"

definition query_params :: "query \<Rightarrow> sqlval list" where
  "query_params q =
     map cond_value (q_where q) @ (case q_limit q of None \<Rightarrow> [] | Some k \<Rightarrow> [Integer k])"

text \<open>
  \<^verbatim>\<open>DatabaseManager.execute_query\<close> on one table: the statement is prepared (an unknown
  column raises), its parameters are bound, and the rows are fetched.
\<close>

definition execute_query :: "schema \<Rightarrow> row list \<Rightarrow> query \<Rightarrow> exn + row list" where
  "execute_query sch rws q =
     (case missing_columns sch (query_columns q) of
        c # cs \<Rightarrow> Inl (OperationalError (''no such column: '' @ c))
      | [] \<Rightarrow>
          if \<not> list_all bindable (query_params q)
          then Inl (OverflowError ''Python int too large to convert to SQLite INTEGER'')
          else Inr (map (project (q_select q))
                 (apply_limit (q_limit q)
                   (apply_order (q_order_desc q)
                     (filter (\<lambda>r. list_all (cond_true r) (q_where q)) rws)))))"

text \<open>
  \<^verbatim>\<open>DatabaseManager.execute_update\<close> with an \<^verbatim>\<open>INSERT INTO t (cols) VALUES (?, ...)\<close>:
  the new row has the given values and NULL elsewhere, and is refused when a stored row
  has the same primary key.
\<close>

definition insert_row :: "schema \<Rightarrow> string list \<Rightarrow> sqlval list \<Rightarrow> row" where
  "insert_row sch cols vals =
     map (\<lambda>c. (c, case map_of (zip cols vals) c of Some v \<Rightarrow> v | None \<Rightarrow> Null)) (columns sch)"

definition pk_conflict :: "schema \<Rightarrow> row \<Rightarrow> row \<Rightarrow> bool" where
  "pk_conflict sch new r =
     (primary_key sch \<noteq> [] \<and>
      list_all (\<lambda>k. sql_eq (row_get r k) (row_get new k)) (primary_key sch))"

text \<open>The columns of the primary key as the message of SQLite lists them.\<close>

fun key_names :: "string \<Rightarrow> string list \<Rightarrow> string" where
  "key_names t [] = []"
| "key_names t [k] = t @ ''.'' @ k"
| "key_names t (k # ks) = t @ ''.'' @ k @ '', '' @ key_names t ks"

definition execute_insert :: "schema \<Rightarrow> row list \<Rightarrow> string list \<Rightarrow> sqlval list \<Rightarrow> exn + row list" where
  "execute_insert sch rws cols vals =
     (case missing_columns sch cols of
        c # cs \<Rightarrow> Inl (OperationalError (''table '' @ table_name sch @ '' has no column named '' @ c))
      | [] \<Rightarrow>
          if \<not> list_all bindable vals
          then Inl (OverflowError ''Python int too large to convert to SQLite INTEGER'')
          else if list_ex (pk_conflict sch (insert_row sch cols vals)) rws
          then Inl (IntegrityError (''UNIQUE constraint failed: '' @
                      key_names (table_name sch) (primary_key sch)))
          else Inr (rws @ [insert_row sch cols vals]))"


section \<open>AIMemoryDatabase\<close>

definition curated_memories_schema :: schema where
  "curated_memories_schema =
     \<lparr>table_name = ''curated_memories'',
      columns = [''memory_id'', ''timestamp_created'', ''timestamp_updated'',
                 ''source_conversation_id'', ''memory_type'', ''content'',
                 ''importance_level'', ''tags''],
      primary_key = [''memory_id'']\<rparr>"

record ai_memory_db =
  curated_memories :: "row list"

text \<open>\<^verbatim>\<open>json.dumps(x) if x else None\<close>, with \<^verbatim>\<open>json.dumps\<close> a parameter.\<close>

definition dumps_if :: "(pyval \<Rightarrow> string) \<Rightarrow> pyval \<Rightarrow> sqlval" where
  "dumps_if json_dumps x = (if truthy x then Text (json_dumps x) else Null)"

text \<open>
  \<^verbatim>\<open>AIMemoryDatabase.create_memory\<close> of \<^verbatim>\<open>llama-ai-memory\<close>. \<open>uuid4\<close> is the value
  \<^verbatim>\<open>str(uuid.uuid4())\<close> draws in this call and \<open>now\<close> the timestamp the clock gives.
\<close>

definition memory_insert_columns :: "string list" where
  "memory_insert_columns =
     [''memory_id'', ''timestamp_created'', ''timestamp_updated'', ''source_conversation_id'',
      ''memory_type'', ''content'', ''importance_level'', ''tags'']"

definition create_memory ::
  "(pyval \<Rightarrow> string) \<Rightarrow> string \<Rightarrow> string \<Rightarrow> string \<Rightarrow> string option \<Rightarrow> int \<Rightarrow> pyval \<Rightarrow>
   string option \<Rightarrow> ai_memory_db \<Rightarrow> (exn + pyval) \<times> ai_memory_db" where
  "create_memory json_dumps uuid4 now content memory_type importance_level tags
       source_conversation_id db =
     (let memory_id = uuid4; timestamp = now in
      case execute_query curated_memories_schema (curated_memories db)
             \<lparr>q_select = [''memory_id''],
              q_where = [Eq ''content'' (Text content),
                       Eq ''memory_type'' (bind_str memory_type),
                       Is ''source_conversation_id'' (bind_str source_conversation_id)],
              q_order_desc = None, q_limit = None\<rparr> of
        Inl e \<Rightarrow> (Inl e, db)
      | Inr (r # rs) \<Rightarrow> (Inr (py_of_sql (row_get r ''memory_id'')), db)
      | Inr [] \<Rightarrow>
          (case execute_insert curated_memories_schema (curated_memories db)
                  memory_insert_columns
                  [Text memory_id, Text timestamp, Text timestamp,
                   bind_str source_conversation_id, bind_str memory_type, Text content,
                   Integer importance_level, dumps_if json_dumps tags] of
             Inl e \<Rightarrow> (Inl e, db)
           | Inr rws \<Rightarrow> (Inr (PStr memory_id), db\<lparr>curated_memories := rws\<rparr>)))"

text \<open>
  \<^verbatim>\<open>AIMemoryDatabase.create_memory\<close> of \<^verbatim>\<open>ai-memory-llm-integration\<close>: the same
  insert, with no query before it.
\<close>

definition create_memory_integration ::
  "(pyval \<Rightarrow> string) \<Rightarrow> string \<Rightarrow> string \<Rightarrow> string \<Rightarrow> string option \<Rightarrow> int \<Rightarrow> pyval \<Rightarrow>
   string option \<Rightarrow> ai_memory_db \<Rightarrow> (exn + pyval) \<times> ai_memory_db" where
  "create_memory_integration json_dumps uuid4 now content memory_type importance_level tags
       source_conversation_id db =
     (let memory_id = uuid4; timestamp = now in
      case execute_insert curated_memories_schema (curated_memories db)
             memory_insert_columns
             [Text memory_id, Text timestamp, Text timestamp,
              bind_str source_conversation_id, bind_str memory_type, Text content,
              Integer importance_level, dumps_if json_dumps tags] of
        Inl e \<Rightarrow> (Inl e, db)
      | Inr rws \<Rightarrow> (Inr (PStr memory_id), db\<lparr>curated_memories := rws\<rparr>))"

text \<open>The rows of the memory store that carry a given (content, type, source) key.\<close>

definition memory_key_rows :: "string \<Rightarrow> string option \<Rightarrow> string option \<Rightarrow> ai_memory_db \<Rightarrow> row list" where
  "memory_key_rows content memory_type source_conversation_id db =
     filter (\<lambda>r. row_get r ''content'' = Text content \<and>
                 row_get r ''memory_type'' = bind_str memory_type \<and>
                 row_get r ''source_conversation_id'' = bind_str source_conversation_id)
       (curated_memories db)"


section \<open>ScheduleDatabase\<close>

definition appointments_schema :: schema where
  "appointments_schema =
     \<lparr>table_name = ''appointments'',
      columns = [''appointment_id'', ''timestamp_created'', ''scheduled_datetime'', ''title'',
                 ''description'', ''location'', ''source_conversation_id''],
      primary_key = [''appointment_id'']\<rparr>"

record schedule_db =
  appointments :: "row list"
  reminders :: "row list"

definition appointment_insert_columns :: "string list" where
  "appointment_insert_columns =
     [''appointment_id'', ''timestamp_created'', ''scheduled_datetime'', ''title'',
      ''description'', ''location'', ''source_conversation_id'']"


text \<open>\<^verbatim>\<open>ScheduleDatabase.create_appointment\<close> of \<^verbatim>\<open>ai-memory-llm-integration\<close>.\<close>

definition create_appointment_integration ::
  "string \<Rightarrow> string \<Rightarrow> string \<Rightarrow> string \<Rightarrow> string option \<Rightarrow> string option \<Rightarrow> string option \<Rightarrow>
   schedule_db \<Rightarrow> (exn + pyval) \<times> schedule_db" where
  "create_appointment_integration uuid4 now title scheduled_datetime description location
       source_conversation_id db =
     (let appointment_id = uuid4; timestamp = now in
      case execute_insert appointments_schema (appointments db)
             appointment_insert_columns
             [Text appointment_id, Text timestamp, Text scheduled_datetime, Text title,
              bind_str description, bind_str location, bind_str source_conversation_id] of
        Inl e \<Rightarrow> (Inl e, db)
      | Inr rws \<Rightarrow> (Inr (PStr appointment_id), db\<lparr>appointments := rws\<rparr>))"



section \<open>ConversationDatabase\<close>

text \<open>The \<^verbatim>\<open>messages\<close> table, the same in both packages: it has no \<^verbatim>\<open>session_id\<close> column.\<close>

definition messages_schema :: schema where
  "messages_schema =
     \<lparr>table_name = ''messages'',
      columns = [''message_id'', ''conversation_id'', ''timestamp'', ''role'', ''content'',
                 ''metadata''],
      primary_key = [''message_id'']\<rparr>"

record conversation_db =
  messages :: "row list"
  conversations :: "row list"

definition message_insert_columns :: "string list" where
  "message_insert_columns =
     [''message_id'', ''conversation_id'', ''timestamp'', ''role'', ''content'', ''metadata'']"

text \<open>
  \<^verbatim>\<open>ConversationDatabase.store_message\<close> of \<^verbatim>\<open>llama-ai-memory\<close>, from the line
  \<^verbatim>\<open># Auto-create session if not provided\<close> on: what a call does once no duplicate was
  returned. \<open>uuid_session\<close> and \<open>uuid_conversation\<close> are the values the two further
  \<^verbatim>\<open>uuid.uuid4()\<close> calls draw when they are reached.
\<close>

definition store_message_insert ::
  "(pyval \<Rightarrow> string) \<Rightarrow> string \<Rightarrow> string \<Rightarrow> string \<Rightarrow> string \<Rightarrow> string \<Rightarrow> string \<Rightarrow>
   string option \<Rightarrow> string option \<Rightarrow> pyval \<Rightarrow> conversation_db \<Rightarrow> (exn + pyval) \<times> conversation_db" where
  "store_message_insert json_dumps timestamp message_id uuid_session uuid_conversation
       content role session_id0 conversation_id0 metadata db =
     (let session_id = (if \<not> truthy_str session_id0 then Some uuid_session else session_id0);
          conversation_id =
            (if \<not> truthy_str conversation_id0 then Some uuid_conversation else conversation_id0)
      in case execute_insert messages_schema (messages db) message_insert_columns
                [Text message_id, bind_str conversation_id, Text timestamp, Text role,
                 Text content, dumps_if json_dumps metadata] of
           Inl e \<Rightarrow> (Inl e, db)
         | Inr rws \<Rightarrow>
             (Inr (PDict [(''message_id'', PStr message_id),
                          (''conversation_id'', py_of_str conversation_id),
                          (''session_id'', py_of_str session_id),
                          (''duplicate'', PBool False)]),
              db\<lparr>messages := rws\<rparr>))"

text \<open>
  The whole of \<^verbatim>\<open>store_message\<close>. \<open>now\<close> is \<^verbatim>\<open>get_current_timestamp()\<close>, \<open>hour_ago\<close> the
  text \<^verbatim>\<open>datetime('now', '-1 hour')\<close> evaluates to in the query.
\<close>

definition store_message ::
  "(pyval \<Rightarrow> string) \<Rightarrow> string \<Rightarrow> string \<Rightarrow> string \<Rightarrow> string \<Rightarrow> string \<Rightarrow> string \<Rightarrow> string \<Rightarrow>
   string option \<Rightarrow> string option \<Rightarrow> pyval \<Rightarrow> conversation_db \<Rightarrow> (exn + pyval) \<times> conversation_db" where
  "store_message json_dumps now hour_ago uuid_message uuid_session uuid_conversation
       content role session_id conversation_id metadata db =
     (let timestamp = now; message_id = uuid_message in
      if truthy_str session_id then
        (case execute_query messages_schema (messages db)
                \<lparr>q_select = [''message_id''],
                 q_where = [Eq ''content'' (Text content), Eq ''role'' (Text role),
                            Eq ''session_id'' (bind_str session_id),
                            Ge ''timestamp'' (Text hour_ago)],
                 q_order_desc = None, q_limit = None\<rparr> of
           Inl e \<Rightarrow> (Inl e, db)
         | Inr (r # rs) \<Rightarrow>
             (Inr (PDict [(''message_id'', py_of_sql (row_get r ''message_id'')),
                          (''duplicate'', PBool True)]), db)
         | Inr [] \<Rightarrow>
             store_message_insert json_dumps timestamp message_id uuid_session
               uuid_conversation content role session_id conversation_id metadata db)
      else store_message_insert json_dumps timestamp message_id uuid_session
             uuid_conversation content role session_id conversation_id metadata db)"

text \<open>\<^verbatim>\<open>ConversationDatabase.store_message\<close> of \<^verbatim>\<open>ai-memory-llm-integration\<close>.\<close>

definition store_message_integration ::
  "(pyval \<Rightarrow> string) \<Rightarrow> string \<Rightarrow> string \<Rightarrow> string \<Rightarrow> string \<Rightarrow> string option \<Rightarrow>
   string option \<Rightarrow> pyval \<Rightarrow> conversation_db \<Rightarrow> (exn + pyval) \<times> conversation_db" where
  "store_message_integration json_dumps now uuid4 content role session_id conversation_id
       metadata db =
     (let timestamp = now; message_id = uuid4 in
      case execute_insert messages_schema (messages db) message_insert_columns
             [Text message_id, bind_str conversation_id, Text timestamp, Text role,
              Text content, dumps_if json_dumps metadata] of
        Inl e \<Rightarrow> (Inl e, db)
      | Inr rws \<Rightarrow>
          (Inr (PDict [(''message_id'', PStr message_id),
                       (''conversation_id'', py_of_str conversation_id),
                       (''session_id'', py_of_str session_id)]),
           db\<lparr>messages := rws\<rparr>))"


section \<open>MCPToolCallDatabase\<close>

definition tool_calls_schema :: schema where
  "tool_calls_schema =
     \<lparr>table_name = ''tool_calls'',
      columns = [''call_id'', ''timestamp'', ''client_id'', ''tool_name'', ''parameters'',
                 ''result'', ''status'', ''execution_time_ms'', ''error_message''],
      primary_key = [''call_id'']\<rparr>"

definition tool_usage_stats_schema :: schema where
  "tool_usage_stats_schema =
     \<lparr>table_name = ''tool_usage_stats'',
      columns = [''tool_name'', ''date'', ''call_count'', ''success_count'', ''failure_count''],
      primary_key = [''tool_name'', ''date'']\<rparr>"

record mcp_tool_call_db =
  tool_calls :: "row list"
  tool_usage_stats :: "row list"

text \<open>
  \<^verbatim>\<open>DatabaseManager.execute_update\<close> with an \<^verbatim>\<open>UPDATE t SET c = e, ... WHERE ...\<close>: every
  row the conditions hold of gets the new values, each computed from the row as it was.
\<close>

definition update_row :: "(string \<times> (row \<Rightarrow> sqlval)) list \<Rightarrow> row \<Rightarrow> row" where
  "update_row sets r =
     map (\<lambda>(c, v). (c, case map_of sets c of Some f \<Rightarrow> f r | None \<Rightarrow> v)) r"

definition execute_update_set ::
  "schema \<Rightarrow> row list \<Rightarrow> (string \<times> (row \<Rightarrow> sqlval)) list \<Rightarrow> cond list \<Rightarrow> exn + row list" where
  "execute_update_set sch rws sets cs =
     (case missing_columns sch (map fst sets @ map cond_column cs) of
        c # cs' \<Rightarrow> Inl (OperationalError (''no such column: '' @ c))
      | [] \<Rightarrow>
          if \<not> list_all bindable (map cond_value cs)
          then Inl (OverflowError ''Python int too large to convert to SQLite INTEGER'')
          else Inr (map (\<lambda>r. if list_all (cond_true r) cs then update_row sets r else r) rws))"

text \<open>
  \<^verbatim>\<open>a + b\<close> on the counters: NULL if an operand is NULL. The counters are integers, as
  the \<^verbatim>\<open>INSERT\<close> below writes them; a text operand is outside the model.
\<close>

fun sql_add :: "sqlval \<Rightarrow> sqlval \<Rightarrow> sqlval" where
  "sql_add (Integer a) (Integer b) = Integer (a + b)"
| "sql_add a b = Null"

text \<open>
  \<^verbatim>\<open>MCPToolCallDatabase._update_tool_stats\<close> of \<^verbatim>\<open>ai-memory-llm-integration\<close>; \<open>today\<close> is
  \<^verbatim>\<open>datetime.now().date().isoformat()\<close>. The argument \<^verbatim>\<open>execution_time_ms\<close> is not used.
\<close>

definition update_tool_stats ::
  "string \<Rightarrow> string \<Rightarrow> string \<Rightarrow> mcp_tool_call_db \<Rightarrow> (exn + unit) \<times> mcp_tool_call_db" where
  "update_tool_stats today tool_name status db =
     (case execute_query tool_usage_stats_schema (tool_usage_stats db)
             \<lparr>q_select = [],
              q_where = [Eq ''tool_name'' (Text tool_name), Eq ''date'' (Text today)],
              q_order_desc = None, q_limit = None\<rparr> of
        Inl e \<Rightarrow> (Inl e, db)
      | Inr (r # rs) \<Rightarrow>
          (case execute_update_set tool_usage_stats_schema (tool_usage_stats db)
                  [(''call_count'', \<lambda>r. sql_add (row_get r ''call_count'') (Integer 1)),
                   (''success_count'', \<lambda>r. sql_add (row_get r ''success_count'')
                      (Integer (if sql_eq (Text status) (Text ''success'') then 1 else 0))),
                   (''failure_count'', \<lambda>r. sql_add (row_get r ''failure_count'')
                      (Integer (if sql_eq (Text status) (Text ''failure'') then 1 else 0)))]
                  [Eq ''tool_name'' (Text tool_name), Eq ''date'' (Text today)] of
             Inl e \<Rightarrow> (Inl e, db)
           | Inr rws \<Rightarrow> (Inr (), db\<lparr>tool_usage_stats := rws\<rparr>))
      | Inr [] \<Rightarrow>
          (case execute_insert tool_usage_stats_schema (tool_usage_stats db)
                  [''tool_name'', ''date'', ''call_count'', ''success_count'', ''failure_count'']
                  [Text tool_name, Text today, Integer 1,
                   Integer (if status = ''success'' then 1 else 0),
                   Integer (if status = ''failure'' then 1 else 0)] of
             Inl e \<Rightarrow> (Inl e, db)
           | Inr rws \<Rightarrow> (Inr (), db\<lparr>tool_usage_stats := rws\<rparr>)))"

text \<open>\<^verbatim>\<open>int(execution_time_ms) if execution_time_ms else None\<close>.\<close>

fun bind_time :: "int option \<Rightarrow> sqlval" where
  "bind_time None = Null"
| "bind_time (Some t) = (if t \<noteq> 0 then Integer t else Null)"

text \<open>
  \<^verbatim>\<open>MCPToolCallDatabase.log_tool_call\<close> of \<^verbatim>\<open>ai-memory-llm-integration\<close>. The record is
  written first; an exception of the statistics update leaves it written.
\<close>

definition log_tool_call ::
  "(pyval \<Rightarrow> string) \<Rightarrow> string \<Rightarrow> string \<Rightarrow> string \<Rightarrow> string \<Rightarrow> pyval \<Rightarrow> pyval \<Rightarrow> string \<Rightarrow>
   int option \<Rightarrow> string option \<Rightarrow> string option \<Rightarrow> mcp_tool_call_db \<Rightarrow>
   (exn + pyval) \<times> mcp_tool_call_db" where
  "log_tool_call json_dumps uuid4 now today tool_name params result status execution_time_ms
       error_message client_id db =
     (let call_id = uuid4; timestamp = now in
      case execute_insert tool_calls_schema (tool_calls db)
             [''call_id'', ''timestamp'', ''client_id'', ''tool_name'', ''parameters'',
              ''result'', ''status'', ''execution_time_ms'', ''error_message'']
             [Text call_id, Text timestamp, bind_str client_id, Text tool_name,
              Text (json_dumps params), dumps_if json_dumps result, Text status,
              bind_time execution_time_ms, bind_str error_message] of
        Inl e \<Rightarrow> (Inl e, db)
      | Inr rws \<Rightarrow>
          (case update_tool_stats today tool_name status (db\<lparr>tool_calls := rws\<rparr>) of
             (Inl e, db') \<Rightarrow> (Inl e, db')
           | (Inr u, db') \<Rightarrow> (Inr (PStr call_id), db')))"

text \<open>
  \<^verbatim>\<open>MCPToolCallDatabase.get_tool_call_history\<close> of \<^verbatim>\<open>llama-ai-memory\<close>, on the
  \<^verbatim>\<open>tool_calls\<close> table above. It reads and changes nothing.
\<close>

definition get_tool_call_history ::
  "string option \<Rightarrow> int \<Rightarrow> mcp_tool_call_db \<Rightarrow> exn + row list" where
  "get_tool_call_history tool_name lim db =
     execute_query tool_calls_schema (tool_calls db)
       (if truthy_str tool_name
        then \<lparr>q_select = [], q_where = [Eq ''tool_name'' (bind_str tool_name)],
              q_order_desc = Some ''timestamp'', q_limit = Some lim\<rparr>
        else \<lparr>q_select = [], q_where = [],
              q_order_desc = Some ''timestamp'', q_limit = Some lim\<rparr>)"

text \<open>The key \<^verbatim>\<open>ORDER BY timestamp DESC\<close> sorts a record by.\<close>

definition timestamp_key :: "row \<Rightarrow> nat \<times> int \<times> string" where
  "timestamp_key r = sort_key_of (row_get r ''timestamp'')"



section \<open>The request dispatcher\<close>

text \<open>
  A coroutine that works on a state and returns a value or raises. The state is
  returned in both cases: what was written before an exception stays written.
\<close>

type_synonym ('s, 'a) prog = "'s \<Rightarrow> (raised + 'a) \<times> 's"

definition ret :: "'a \<Rightarrow> ('s, 'a) prog" where
  "ret x = (\<lambda>s. (Inr x, s))"

definition raise :: "exn \<Rightarrow> ('s, 'a) prog" where
  "raise e = (\<lambda>s. (Inl (Exc e), s))"

definition lift :: "exn + 'a \<Rightarrow> ('s, 'a) prog" where
  "lift r = (\<lambda>s. (case r of Inl e \<Rightarrow> Inl (Exc e) | Inr x \<Rightarrow> Inr x, s))"

definition seq :: "('s, 'a) prog \<Rightarrow> ('a \<Rightarrow> ('s, 'b) prog) \<Rightarrow> ('s, 'b) prog" where
  "seq m f = (\<lambda>s. case m s of (Inl e, s') \<Rightarrow> (Inl e, s') | (Inr x, s') \<Rightarrow> f x s')"

text \<open>
  \<^verbatim>\<open>try: m  except Exception as e: h e\<close>. An exception that is not derived from
  \<^verbatim>\<open>Exception\<close> is not caught: it leaves the statement.
\<close>

definition try_except :: "('s, 'a) prog \<Rightarrow> (exn \<Rightarrow> ('s, 'a) prog) \<Rightarrow> ('s, 'a) prog" where
  "try_except m h =
     (\<lambda>s. case m s of
             (Inl (Exc e), s') \<Rightarrow> h e s'
           | (Inl (BaseExc c msg), s') \<Rightarrow> (Inl (BaseExc c msg), s')
           | (Inr x, s') \<Rightarrow> (Inr x, s'))"

text \<open>Awaiting a coroutine that raises exceptions derived from \<^verbatim>\<open>Exception\<close> only.\<close>

definition await_exn :: "('s \<Rightarrow> (exn + 'a) \<times> 's) \<Rightarrow> ('s, 'a) prog" where
  "await_exn m = (\<lambda>s. case m s of (Inl e, s') \<Rightarrow> (Inl (Exc e), s') | (Inr x, s') \<Rightarrow> (Inr x, s'))"

text \<open>
  \<^verbatim>\<open>PersistentAIMemorySystem\<close> is imported from a module that is not among the sources,
  so the dispatcher is modelled over any memory system, by what the dispatcher asks of
  it: \<open>coroutine ms name\<close> is the attribute \<open>name\<close> when it is a coroutine function, called
  on its positional arguments; \<open>log_tool_call_attr\<close> is the attribute \<^verbatim>\<open>log_tool_call\<close>
  when \<^verbatim>\<open>hasattr\<close> finds it, called and awaited; \<open>mcp_db_get_tool_call_history\<close> is
  \<^verbatim>\<open>mcp_db.get_tool_call_history\<close> when both \<^verbatim>\<open>hasattr\<close> tests find it, called with
  \<^verbatim>\<open>limit=\<close> its argument. \<open>'s\<close> is everything the memory system persists.

  The operations the dispatcher invokes for a request may raise any exception, also
  one that is not derived from \<^verbatim>\<open>Exception\<close>. A failure of the telemetry write is an
  exception derived from \<^verbatim>\<open>Exception\<close>: a cancellation or an interpreter exit while
  \<^verbatim>\<open>log_tool_call\<close> runs is outside the model.
\<close>

record 's memory_system =
  coroutine :: "string \<Rightarrow> (pyval list \<Rightarrow> ('s, pyval) prog) option"
  log_tool_call_attr :: "(pyval list \<Rightarrow> 's \<Rightarrow> (exn + pyval) \<times> 's) option"
  mcp_db_get_tool_call_history :: "(pyval \<Rightarrow> ('s, pyval) prog) option"

text \<open>
  The request: \<^verbatim>\<open>request.get("tool")\<close>, a string or \<^verbatim>\<open>None\<close>, and
  \<^verbatim>\<open>request.get("parameters")\<close>, any value or \<^verbatim>\<open>None\<close>.
\<close>

record mcp_request =
  req_tool :: "string option"
  req_parameters :: "pyval option"

fun type_name :: "pyval \<Rightarrow> string" where
  "type_name PNone = ''NoneType''"
| "type_name (PBool b) = ''bool''"
| "type_name (PInt i) = ''int''"
| "type_name (PStr s) = ''str''"
| "type_name (PList xs) = ''list''"
| "type_name (PDict kvs) = ''dict''"

text \<open>\<^verbatim>\<open>d.get(k, default)\<close>: only a dict has the method.\<close>

fun py_get :: "pyval \<Rightarrow> string \<Rightarrow> pyval \<Rightarrow> exn + pyval" where
  "py_get (PDict kvs) k dflt = Inr (case map_of kvs k of Some v \<Rightarrow> v | None \<Rightarrow> dflt)"
| "py_get d k dflt =
     Inl (AttributeError (CHR 0x27 # type_name d @ CHR 0x27 # '' object has no attribute '' @
            CHR 0x27 # ''get'' @ [CHR 0x27]))"

text \<open>\<^verbatim>\<open>len(x)\<close>.\<close>

fun py_len :: "pyval \<Rightarrow> exn + int" where
  "py_len (PStr s) = Inr (int (length s))"
| "py_len (PList xs) = Inr (int (length xs))"
| "py_len (PDict kvs) = Inr (int (length kvs))"
| "py_len x =
     Inl (TypeError (''object of type '' @ CHR 0x27 # type_name x @ CHR 0x27 # '' has no len()''))"

text \<open>\<^verbatim>\<open>msg1.get('conversation_id') if isinstance(msg1, dict) else None\<close>.\<close>

fun conversation_id_of :: "pyval \<Rightarrow> pyval" where
  "conversation_id_of (PDict kvs) = (case map_of kvs ''conversation_id'' of Some v \<Rightarrow> v | None \<Rightarrow> PNone)"
| "conversation_id_of x = PNone"

definition success_envelope :: "pyval \<Rightarrow> pyval" where
  "success_envelope res = PDict [(''status'', PStr ''success''), (''result'', res)]"

definition error_envelope :: "string \<Rightarrow> pyval" where
  "error_envelope msg = PDict [(''status'', PStr ''error''), (''error'', PStr msg)]"

text \<open>\<^verbatim>\<open>PersistentAIMemoryMCPServer._log_call\<close>.\<close>

definition log_call ::
  "'s memory_system \<Rightarrow> pyval \<Rightarrow> pyval \<Rightarrow> pyval \<Rightarrow> string \<Rightarrow> pyval \<Rightarrow> pyval \<Rightarrow> pyval \<Rightarrow>
   ('s, unit) prog" where
  "log_call ms tool_name params execution_time_ms status result error_message client_id =
     try_except
       (case log_tool_call_attr ms of
          None \<Rightarrow> ret ()
        | Some f \<Rightarrow>
            seq (await_exn (f [tool_name, py_or params (PDict []), execution_time_ms,
                               PStr status, result, error_message, client_id]))
              (\<lambda>r. ret ()))
       (\<lambda>e. ret ())"

text \<open>\<^verbatim>\<open>PersistentAIMemoryMCPServer._call_method\<close>.\<close>

definition call_method :: "'s memory_system \<Rightarrow> string \<Rightarrow> pyval list \<Rightarrow> ('s, pyval) prog" where
  "call_method ms method_name args =
     (case coroutine ms method_name of
        None \<Rightarrow> raise (AttributeError (''Method '' @ method_name @ '' not available on memory system''))
      | Some method \<Rightarrow> method args)"

text \<open>The branches of \<^verbatim>\<open>handle_mcp_request\<close>, one per tool, in the order of the source.\<close>

definition tool_create_memory :: "'s memory_system \<Rightarrow> pyval \<Rightarrow> pyval \<Rightarrow> pyval \<Rightarrow> ('s, pyval) prog" where
  "tool_create_memory ms tool params client_id =
     seq (lift (py_get params ''content'' PNone)) (\<lambda>c.
     seq (if truthy c then ret c else lift (py_get params ''memory_content'' PNone)) (\<lambda>content.
     seq (lift (py_get params ''memory_type'' PNone)) (\<lambda>memory_type.
     seq (lift (py_get params ''importance_level'' (PInt 5))) (\<lambda>importance.
     seq (lift (py_get params ''tags'' PNone)) (\<lambda>tags.
     seq (lift (py_get params ''source_conversation_id'' PNone)) (\<lambda>source.
     seq (call_method ms ''create_memory'' [content, memory_type, importance, tags, source]) (\<lambda>res.
     seq (log_call ms tool params PNone ''success'' res PNone client_id) (\<lambda>u.
     ret (success_envelope res)))))))))"

definition tool_search_memories :: "'s memory_system \<Rightarrow> pyval \<Rightarrow> pyval \<Rightarrow> pyval \<Rightarrow> ('s, pyval) prog" where
  "tool_search_memories ms tool params client_id =
     seq (lift (py_get params ''query'' PNone)) (\<lambda>query.
     seq (lift (py_get params ''limit'' (PInt 10))) (\<lambda>lim.
     seq (call_method ms ''search_memories'' [query, lim]) (\<lambda>res.
     seq (log_call ms tool params PNone ''success'' res PNone client_id) (\<lambda>u.
     ret (success_envelope res)))))"

definition tool_get_system_health :: "'s memory_system \<Rightarrow> pyval \<Rightarrow> pyval \<Rightarrow> pyval \<Rightarrow> ('s, pyval) prog" where
  "tool_get_system_health ms tool params client_id =
     seq (call_method ms ''get_system_health'' []) (\<lambda>res.
     seq (log_call ms tool params PNone ''success'' res PNone client_id) (\<lambda>u.
     ret (success_envelope res)))"

definition tool_get_tool_call_history :: "'s memory_system \<Rightarrow> pyval \<Rightarrow> pyval \<Rightarrow> pyval \<Rightarrow> ('s, pyval) prog" where
  "tool_get_tool_call_history ms tool params client_id =
     seq (lift (py_get params ''limit'' (PInt 50))) (\<lambda>lim.
     seq (try_except
            (case mcp_db_get_tool_call_history ms of
               None \<Rightarrow> ret (PList [])
             | Some f \<Rightarrow> f lim)
            (\<lambda>e. ret (PList []))) (\<lambda>rows.
     seq (lift (py_len rows)) (\<lambda>n.
     seq (log_call ms tool params PNone ''success'' (PDict [(''history_count'', PInt n)]) PNone
            client_id) (\<lambda>u.
     ret (success_envelope (PDict [(''history'', rows)]))))))"

definition tool_store_conversation :: "'s memory_system \<Rightarrow> pyval \<Rightarrow> pyval \<Rightarrow> pyval \<Rightarrow> ('s, pyval) prog" where
  "tool_store_conversation ms tool params client_id =
     seq (lift (py_get params ''user_message'' PNone)) (\<lambda>c.
     seq (if truthy c then ret c else lift (py_get params ''content'' PNone)) (\<lambda>content.
     seq (lift (py_get params ''assistant_response'' PNone)) (\<lambda>assistant.
     seq (lift (py_get params ''session_id'' PNone)) (\<lambda>session_id.
     seq (lift (py_get params ''metadata'' PNone)) (\<lambda>metadata.
     seq (call_method ms ''store_conversation''
            [content, PStr ''user'', session_id, PNone, metadata]) (\<lambda>msg1.
     seq (if truthy assistant
          then seq (lift (py_get params ''metadata'' PNone)) (\<lambda>metadata2.
               seq (call_method ms ''store_conversation''
                      [assistant, PStr ''assistant'', session_id, PNone, metadata2]) (\<lambda>msg2.
               ret ()))
          else ret ()) (\<lambda>u.
     seq (log_call ms tool params PNone ''success''
            (PDict [(''conversation_id'', conversation_id_of msg1)]) PNone client_id) (\<lambda>u.
     ret (success_envelope (PDict [(''conversation_id'', conversation_id_of msg1)]))))))))))"


text \<open>\<^verbatim>\<open>f"{tool}"\<close> and \<^verbatim>\<open>tool or "unknown"\<close>.\<close>

fun format_tool :: "string option \<Rightarrow> string" where
  "format_tool None = ''None''"
| "format_tool (Some t) = t"

fun tool_or_unknown :: "string option \<Rightarrow> string" where
  "tool_or_unknown None = ''unknown''"
| "tool_or_unknown (Some t) = (if t \<noteq> [] then t else ''unknown'')"

text \<open>\<^verbatim>\<open>request.get("parameters") or {}\<close>.\<close>

definition request_params :: "mcp_request \<Rightarrow> pyval" where
  "request_params request =
     (case req_parameters request of None \<Rightarrow> PDict [] | Some p \<Rightarrow> py_or p (PDict []))"

text \<open>The body of the \<^verbatim>\<open>try\<close> block of \<^verbatim>\<open>handle_mcp_request\<close>.\<close>

definition dispatch :: "'s memory_system \<Rightarrow> string option \<Rightarrow> pyval \<Rightarrow> pyval \<Rightarrow> ('s, pyval) prog" where
  "dispatch ms tool params client_id =
     (if tool = Some ''store_memory'' \<or> tool = Some ''create_memory''
      then tool_create_memory ms (py_of_str tool) params client_id
      else if tool = Some ''search_memories''
      then tool_search_memories ms (py_of_str tool) params client_id
      else if tool = Some ''get_system_health''
      then tool_get_system_health ms (py_of_str tool) params client_id
      else if tool = Some ''get_tool_call_history''
      then tool_get_tool_call_history ms (py_of_str tool) params client_id
      else if tool = Some ''store_conversation''
      then tool_store_conversation ms (py_of_str tool) params client_id
      else ret (error_envelope (''Unknown tool: '' @ format_tool tool)))"

text \<open>\<^verbatim>\<open>PersistentAIMemoryMCPServer.handle_mcp_request\<close>.\<close>

definition handle_mcp_request :: "'s memory_system \<Rightarrow> mcp_request \<Rightarrow> pyval \<Rightarrow> ('s, pyval) prog" where
  "handle_mcp_request ms request client_id =
     (let tool = req_tool request; params = request_params request in
      try_except (dispatch ms tool params client_id)
        (\<lambda>e. seq (log_call ms (PStr (tool_or_unknown tool)) params PNone ''error'' PNone
                    (PStr (str_exn e)) client_id) (\<lambda>u.
             ret (error_envelope (str_exn e)))))"




section \<open>A memory system for the examples\<close>

text \<open>
  A memory system without coroutine methods and without \<^verbatim>\<open>mcp_db\<close>, whose
  \<^verbatim>\<open>log_tool_call\<close> appends the arguments of each call to the state: the state is the
  list of the tool calls recorded so far.
\<close>

definition recording_system :: "(pyval list list) memory_system" where
  "recording_system =
     \<lparr>coroutine = (\<lambda>name. None),
      log_tool_call_attr = Some (\<lambda>args. \<lambda>s. (Inr PNone, s @ [args])),
      mcp_db_get_tool_call_history = None\<rparr>"









section \<open>Exceptions derived from Exception\<close>

text \<open>A run ends with an exception that is not derived from \<^verbatim>\<open>Exception\<close>.\<close>

definition raises_base :: "(raised + 'a) \<times> 's \<Rightarrow> bool" where
  "raises_base r = (case fst r of Inl (BaseExc c msg) \<Rightarrow> True | _ \<Rightarrow> False)"



section \<open>Auxiliary notions for the proofs\<close>

text \<open>No run of a program ends with an exception that is not derived from \<^verbatim>\<open>Exception\<close>.\<close>

definition no_base :: "('s, 'a) prog \<Rightarrow> bool" where
  "no_base m = (\<forall>s. \<not> raises_base (m s))"




text \<open>A row of the daily statistics whose three counters are integers that add up.\<close>

definition stats_row_consistent :: "row \<Rightarrow> bool" where
  "stats_row_consistent r =
     (case (row_get r ''call_count'', row_get r ''success_count'', row_get r ''failure_count'') of
        (Integer c, Integer s, Integer f) \<Rightarrow> c = s + f
      | _ \<Rightarrow> False)"


section \<open>Facts about the store primitive\<close>

lemma bindable_bind_str [simp]: "bindable (bind_str x)"
  by (cases x) auto

lemma sql_eq_Text: "sql_eq a (Text s) = (a = Text s)"
  by (cases a) auto




section \<open>Duplicate detection of memories\<close>


lemma memory_new_row_get:
  "row_get (insert_row curated_memories_schema memory_insert_columns
      [mid, t1, t2, src, mt, content, lvl, tags]) ''memory_id'' = mid"
  "row_get (insert_row curated_memories_schema memory_insert_columns
      [mid, t1, t2, src, mt, content, lvl, tags]) ''content'' = content"
  "row_get (insert_row curated_memories_schema memory_insert_columns
      [mid, t1, t2, src, mt, content, lvl, tags]) ''memory_type'' = mt"
  "row_get (insert_row curated_memories_schema memory_insert_columns
      [mid, t1, t2, src, mt, content, lvl, tags]) ''source_conversation_id'' = src"
  by (simp_all add: insert_row_def curated_memories_schema_def memory_insert_columns_def row_get_def)




text \<open>
  In general: \<^verbatim>\<open>create_memory\<close> of \<^verbatim>\<open>ai-memory-llm-integration\<close> with a memory id
  that is not stored yet inserts a row and returns the new id, whatever the store holds.
\<close>

lemma create_memory_integration_always_inserts:
  assumes fresh: "\<forall>r \<in> set (curated_memories db). row_get r ''memory_id'' \<noteq> Text uuid4"
      and lvl: "bindable (Integer importance_level)"
  shows "create_memory_integration json_dumps uuid4 now content memory_type importance_level
           tags source_conversation_id db
         = (Inr (PStr uuid4),
            db\<lparr>curated_memories := curated_memories db @
              [insert_row curated_memories_schema memory_insert_columns
                 [Text uuid4, Text now, Text now, bind_str source_conversation_id,
                  bind_str memory_type, Text content, Integer importance_level,
                  dumps_if json_dumps tags]]\<rparr>)"
proof -
  have m: "missing_columns curated_memories_schema memory_insert_columns = []"
    by (simp add: missing_columns_def curated_memories_schema_def memory_insert_columns_def)
  have pk: "primary_key curated_memories_schema = [''memory_id'']"
    by (simp add: curated_memories_schema_def)
  have d: "bindable (dumps_if json_dumps tags)" by (simp add: dumps_if_def)
  have "\<not> list_ex (pk_conflict curated_memories_schema
          (insert_row curated_memories_schema memory_insert_columns
             [Text uuid4, Text now, Text now, bind_str source_conversation_id,
              bind_str memory_type, Text content, Integer importance_level,
              dumps_if json_dumps tags])) (curated_memories db)"
    using fresh by (auto simp: list_ex_iff pk_conflict_def pk memory_new_row_get sql_eq_Text)
  with m lvl d show ?thesis
    by (simp add: create_memory_integration_def execute_insert_def Let_def)
qed

text \<open>
  In \<^verbatim>\<open>llama-ai-memory\<close> the query compares the type with \<^verbatim>\<open>memory_type = ?\<close>, which no
  row satisfies when the type is null (the source and, in \<^verbatim>\<open>store_project_insight\<close>, the
  insight type are compared with \<^verbatim>\<open>IS ?\<close>): a memory without a type is inserted on
  every call.
\<close>

lemma create_memory_null_type_inserts_twice:
  "fst (create_memory (\<lambda>v. ''null'') ''id1'' ''2025-03-01T10:00:00'' ''x''
          None 5 PNone None \<lparr>curated_memories = []\<rparr>) = Inr (PStr ''id1'') \<and>
   fst (create_memory (\<lambda>v. ''null'') ''id2'' ''2025-03-01T10:00:05'' ''x''
          None 5 PNone None
          (snd (create_memory (\<lambda>v. ''null'') ''id1'' ''2025-03-01T10:00:00'' ''x''
                  None 5 PNone None \<lparr>curated_memories = []\<rparr>))) = Inr (PStr ''id2'') \<and>
   length (memory_key_rows ''x'' None None
     (snd (create_memory (\<lambda>v. ''null'') ''id2'' ''2025-03-01T10:00:05'' ''x''
          None 5 PNone None
          (snd (create_memory (\<lambda>v. ''null'') ''id1'' ''2025-03-01T10:00:00'' ''x''
                  None 5 PNone None \<lparr>curated_memories = []\<rparr>))))) = 2"
  by (simp add: create_memory_def execute_query_def execute_insert_def missing_columns_def
      query_columns_def query_params_def apply_limit_def apply_order_def
      curated_memories_schema_def memory_insert_columns_def dumps_if_def Let_def
      pk_conflict_def insert_row_def row_get_def memory_key_rows_def)


section \<open>Duplicate detection of appointments\<close>


lemma appointment_new_row_get:
  "row_get (insert_row appointments_schema appointment_insert_columns
      [aid, t1, dt, title, descr, loc, src]) ''appointment_id'' = aid"
  "row_get (insert_row appointments_schema appointment_insert_columns
      [aid, t1, dt, title, descr, loc, src]) ''title'' = title"
  "row_get (insert_row appointments_schema appointment_insert_columns
      [aid, t1, dt, title, descr, loc, src]) ''scheduled_datetime'' = dt"
  "row_get (insert_row appointments_schema appointment_insert_columns
      [aid, t1, dt, title, descr, loc, src]) ''location'' = loc"
  "row_get (insert_row appointments_schema appointment_insert_columns
      [aid, t1, dt, title, descr, loc, src]) ''source_conversation_id'' = src"
  by (simp_all add: insert_row_def appointments_schema_def appointment_insert_columns_def row_get_def)



text \<open>
  In general: \<^verbatim>\<open>create_appointment\<close> of \<^verbatim>\<open>ai-memory-llm-integration\<close> with an
  appointment id that is not stored yet inserts a row and returns the new id, whatever
  the store holds.
\<close>

lemma create_appointment_integration_always_inserts:
  assumes fresh: "\<forall>r \<in> set (appointments db). row_get r ''appointment_id'' \<noteq> Text uuid4"
  shows "create_appointment_integration uuid4 now title scheduled_datetime description location
           source_conversation_id db
         = (Inr (PStr uuid4),
            db\<lparr>appointments := appointments db @
              [insert_row appointments_schema appointment_insert_columns
                 [Text uuid4, Text now, Text scheduled_datetime, Text title,
                  bind_str description, bind_str location,
                  bind_str source_conversation_id]]\<rparr>)"
proof -
  have m: "missing_columns appointments_schema appointment_insert_columns = []"
    by (simp add: missing_columns_def appointments_schema_def appointment_insert_columns_def)
  have pk: "primary_key appointments_schema = [''appointment_id'']"
    by (simp add: appointments_schema_def)
  have "\<not> list_ex (pk_conflict appointments_schema
          (insert_row appointments_schema appointment_insert_columns
             [Text uuid4, Text now, Text scheduled_datetime, Text title,
              bind_str description, bind_str location, bind_str source_conversation_id]))
          (appointments db)"
    using fresh by (auto simp: list_ex_iff pk_conflict_def pk appointment_new_row_get sql_eq_Text)
  with m show ?thesis
    by (simp add: create_appointment_integration_def execute_insert_def Let_def)
qed


section \<open>The dispatcher\<close>



lemma log_call_returns: "\<exists>s'. log_call ms t p x st r em cid s = (Inr (), s')"
  by (auto simp: log_call_def try_except_def seq_def ret_def await_exn_def
      split: option.splits prod.splits sum.splits raised.splits)





lemma raises_base_simps [simp]:
  "raises_base (Inl (BaseExc c msg), s) = True"
  "raises_base (Inl (Exc e), s) = False"
  "raises_base (Inr x, s) = False"
  by (simp_all add: raises_base_def)

lemma no_base_ret [simp]: "no_base (ret x)"
  by (simp add: no_base_def raises_base_def ret_def)

lemma no_base_raise [simp]: "no_base (raise e)"
  by (simp add: no_base_def raises_base_def raise_def)

lemma no_base_lift [simp]: "no_base (lift r)"
  by (cases r) (simp_all add: no_base_def raises_base_def lift_def)



lemma no_base_log_call [simp]: "no_base (log_call ms t p x st r em cid)"
proof -
  have "\<not> raises_base (log_call ms t p x st r em cid s)" for s
    using log_call_returns [of ms t p x st r em cid s] by (auto simp: raises_base_def)
  then show ?thesis by (simp add: no_base_def)
qed












lemma call_method_log_attr [simp]:
  "call_method (ms\<lparr>log_tool_call_attr := f\<rparr>) = call_method ms"
  by (intro ext) (simp add: call_method_def)




section \<open>The tool-call history\<close>

lemma project_Nil [simp]: "project [] = (\<lambda>r. r)"
  by (intro ext) (simp add: project_def)

lemma timestamp_key_fun: "(\<lambda>r. sort_key_of (row_get r ''timestamp'')) = timestamp_key"
  by (intro ext) (simp add: timestamp_key_def)

lemma history_rows:
  assumes "get_tool_call_history tool_name K db = Inr rws"
  shows "rws = apply_limit (Some K)
           (rev (sort_key timestamp_key
              (rev (filter (\<lambda>r. truthy_str tool_name \<longrightarrow> sql_eq (row_get r ''tool_name'') (bind_str tool_name))
                 (tool_calls db)))))"
  using assms
  by (auto simp: get_tool_call_history_def execute_query_def missing_columns_def
      query_columns_def query_params_def tool_calls_schema_def apply_order_def timestamp_key_fun
      split: if_splits list.splits)







text \<open>In general: with a negative limit every record the filter admits is returned.\<close>

lemma get_tool_call_history_negative_limit_all:
  assumes k: "K < 0" and hist: "get_tool_call_history tool_name K db = Inr rws"
  shows "length rws =
           length (filter (\<lambda>r. truthy_str tool_name \<longrightarrow>
                            sql_eq (row_get r ''tool_name'') (bind_str tool_name))
                     (tool_calls db))"
  using history_rows [OF hist] k by (simp add: apply_limit_def)


section \<open>Tool-call telemetry\<close>

lemma stats_query_rows:
  "execute_query tool_usage_stats_schema rws
     \<lparr>q_select = [],
      q_where = [Eq ''tool_name'' (Text tn), Eq ''date'' (Text today)],
      q_order_desc = None, q_limit = None\<rparr>
   = Inr (filter (\<lambda>r. row_get r ''tool_name'' = Text tn \<and> row_get r ''date'' = Text today) rws)"
  by (simp add: execute_query_def missing_columns_def query_columns_def query_params_def
      tool_usage_stats_schema_def apply_limit_def apply_order_def sql_eq_Text)

lemma stats_new_row_get:
  "row_get (insert_row tool_usage_stats_schema
      [''tool_name'', ''date'', ''call_count'', ''success_count'', ''failure_count'']
      [tn, d, c, s, f]) ''tool_name'' = tn"
  "row_get (insert_row tool_usage_stats_schema
      [''tool_name'', ''date'', ''call_count'', ''success_count'', ''failure_count'']
      [tn, d, c, s, f]) ''date'' = d"
  by (simp_all add: insert_row_def tool_usage_stats_schema_def row_get_def)

lemma stats_insert_ok:
  assumes "filter (\<lambda>r. row_get r ''tool_name'' = Text tn \<and> row_get r ''date'' = Text today) rws = []"
      and "bindable c" "bindable s" "bindable f"
  shows "execute_insert tool_usage_stats_schema rws
           [''tool_name'', ''date'', ''call_count'', ''success_count'', ''failure_count'']
           [Text tn, Text today, c, s, f]
         = Inr (rws @ [insert_row tool_usage_stats_schema
           [''tool_name'', ''date'', ''call_count'', ''success_count'', ''failure_count'']
           [Text tn, Text today, c, s, f]])"
proof -
  have m: "missing_columns tool_usage_stats_schema
             [''tool_name'', ''date'', ''call_count'', ''success_count'', ''failure_count''] = []"
    by (simp add: missing_columns_def tool_usage_stats_schema_def)
  have pk: "primary_key tool_usage_stats_schema = [''tool_name'', ''date'']"
    by (simp add: tool_usage_stats_schema_def)
  have "\<not> list_ex (pk_conflict tool_usage_stats_schema (insert_row tool_usage_stats_schema
           [''tool_name'', ''date'', ''call_count'', ''success_count'', ''failure_count'']
           [Text tn, Text today, c, s, f])) rws"
    using assms(1)
    by (auto simp: list_ex_iff pk_conflict_def pk stats_new_row_get sql_eq_Text filter_empty_conv)
  with m assms(2-) show ?thesis
    by (simp add: execute_insert_def)
qed

lemma stats_update_ok:
  "\<exists>rws'. execute_update_set tool_usage_stats_schema rws
     [(''call_count'', f1), (''success_count'', f2), (''failure_count'', f3)]
     [Eq ''tool_name'' (Text tn), Eq ''date'' (Text today)] = Inr rws'"
  by (simp add: execute_update_set_def missing_columns_def tool_usage_stats_schema_def)

lemma update_tool_stats_returns:
  "\<exists>db'. update_tool_stats today tn status db = (Inr (), db') \<and> tool_calls db' = tool_calls db"
proof (cases "filter (\<lambda>r. row_get r ''tool_name'' = Text tn \<and> row_get r ''date'' = Text today)
                (tool_usage_stats db)")
  case Nil
  show ?thesis
    by (simp add: update_tool_stats_def stats_query_rows Nil stats_insert_ok [OF Nil])
next
  case (Cons r rs)
  obtain rws' where "execute_update_set tool_usage_stats_schema (tool_usage_stats db)
     [(''call_count'', \<lambda>r. sql_add (row_get r ''call_count'') (Integer 1)),
      (''success_count'', \<lambda>r. sql_add (row_get r ''success_count'')
          (Integer (if sql_eq (Text status) (Text ''success'') then 1 else 0))),
      (''failure_count'', \<lambda>r. sql_add (row_get r ''failure_count'')
          (Integer (if sql_eq (Text status) (Text ''failure'') then 1 else 0)))]
     [Eq ''tool_name'' (Text tn), Eq ''date'' (Text today)] = Inr rws'"
    using stats_update_ok by blast
  then show ?thesis
    by (simp add: update_tool_stats_def stats_query_rows Cons)
qed

lemma tool_call_new_row_get:
  "row_get (insert_row tool_calls_schema
      [''call_id'', ''timestamp'', ''client_id'', ''tool_name'', ''parameters'',
       ''result'', ''status'', ''execution_time_ms'', ''error_message'']
      [cid, ts, cl, tn, ps, res, st, ms, em]) ''call_id'' = cid"
  "row_get (insert_row tool_calls_schema
      [''call_id'', ''timestamp'', ''client_id'', ''tool_name'', ''parameters'',
       ''result'', ''status'', ''execution_time_ms'', ''error_message'']
      [cid, ts, cl, tn, ps, res, st, ms, em]) ''result'' = res"
  "row_get (insert_row tool_calls_schema
      [''call_id'', ''timestamp'', ''client_id'', ''tool_name'', ''parameters'',
       ''result'', ''status'', ''execution_time_ms'', ''error_message'']
      [cid, ts, cl, tn, ps, res, st, ms, em]) ''execution_time_ms'' = ms"
  by (simp_all add: insert_row_def tool_calls_schema_def row_get_def)

lemma tool_call_insert_ok:
  assumes fresh: "\<forall>r \<in> set rws. row_get r ''call_id'' \<noteq> Text uuid4"
      and t: "bindable ms"
  shows "execute_insert tool_calls_schema rws
      [''call_id'', ''timestamp'', ''client_id'', ''tool_name'', ''parameters'',
       ''result'', ''status'', ''execution_time_ms'', ''error_message'']
      [Text uuid4, Text ts, bind_str cl, Text tn, Text ps, dumps_if jd res, Text st, ms,
       bind_str em]
    = Inr (rws @ [insert_row tool_calls_schema
      [''call_id'', ''timestamp'', ''client_id'', ''tool_name'', ''parameters'',
       ''result'', ''status'', ''execution_time_ms'', ''error_message'']
      [Text uuid4, Text ts, bind_str cl, Text tn, Text ps, dumps_if jd res, Text st, ms,
       bind_str em]])"
proof -
  have m: "missing_columns tool_calls_schema
      [''call_id'', ''timestamp'', ''client_id'', ''tool_name'', ''parameters'',
       ''result'', ''status'', ''execution_time_ms'', ''error_message''] = []"
    by (simp add: missing_columns_def tool_calls_schema_def)
  have pk: "primary_key tool_calls_schema = [''call_id'']"
    by (simp add: tool_calls_schema_def)
  have d: "bindable (dumps_if jd res)" by (simp add: dumps_if_def)
  have "\<not> list_ex (pk_conflict tool_calls_schema (insert_row tool_calls_schema
      [''call_id'', ''timestamp'', ''client_id'', ''tool_name'', ''parameters'',
       ''result'', ''status'', ''execution_time_ms'', ''error_message'']
      [Text uuid4, Text ts, bind_str cl, Text tn, Text ps, dumps_if jd res, Text st, ms,
       bind_str em])) rws"
    using fresh by (auto simp: list_ex_iff pk_conflict_def pk tool_call_new_row_get sql_eq_Text)
  with m t d show ?thesis
    by (simp add: execute_insert_def)
qed

text \<open>
  C10: a call of \<^verbatim>\<open>log_tool_call\<close> with a call id that is not in the log yet returns that
  id and appends one record. The record's \<^verbatim>\<open>result\<close> is the serialized result when the
  result is truthy and null otherwise (so null for \<^verbatim>\<open>0\<close>, \<^verbatim>\<open>False\<close>, \<^verbatim>\<open>""\<close>, \<^verbatim>\<open>[]\<close> and
  \<^verbatim>\<open>{}\<close> as for \<^verbatim>\<open>None\<close>), and its \<^verbatim>\<open>execution_time_ms\<close> is the time when that is
  not zero and null otherwise.
\<close>

theorem log_tool_call_stores_truthy_only:
  assumes fresh: "\<forall>r \<in> set (tool_calls db). row_get r ''call_id'' \<noteq> Text uuid4"
      and time: "bindable (bind_time execution_time_ms)"
  shows "\<exists>db' new.
           log_tool_call json_dumps uuid4 now today tool_name params result status
             execution_time_ms error_message client_id db = (Inr (PStr uuid4), db') \<and>
           tool_calls db' = tool_calls db @ [new] \<and>
           row_get new ''call_id'' = Text uuid4 \<and>
           row_get new ''result'' = (if truthy result then Text (json_dumps result) else Null) \<and>
           row_get new ''execution_time_ms'' =
             (case execution_time_ms of None \<Rightarrow> Null
              | Some t \<Rightarrow> if t = 0 then Null else Integer t)"
proof -
  let ?new = "insert_row tool_calls_schema
      [''call_id'', ''timestamp'', ''client_id'', ''tool_name'', ''parameters'',
       ''result'', ''status'', ''execution_time_ms'', ''error_message'']
      [Text uuid4, Text now, bind_str client_id, Text tool_name, Text (json_dumps params),
       dumps_if json_dumps result, Text status, bind_time execution_time_ms,
       bind_str error_message]"
  note ins = tool_call_insert_ok [OF fresh time, of now client_id tool_name "json_dumps params"
      json_dumps result status error_message]
  obtain db' where u: "update_tool_stats today tool_name status
        (db\<lparr>tool_calls := tool_calls db @ [?new]\<rparr>) = (Inr (), db')"
      and tc: "tool_calls db' = tool_calls (db\<lparr>tool_calls := tool_calls db @ [?new]\<rparr>)"
    using update_tool_stats_returns by blast
  have r: "log_tool_call json_dumps uuid4 now today tool_name params result status
             execution_time_ms error_message client_id db = (Inr (PStr uuid4), db')"
    by (simp add: log_tool_call_def Let_def ins u)
  have t: "bind_time execution_time_ms =
             (case execution_time_ms of None \<Rightarrow> Null
              | Some t \<Rightarrow> if t = 0 then Null else Integer t)"
    by (cases execution_time_ms) auto
  from r tc t show ?thesis
    by (intro exI [of _ db'] exI [of _ ?new])
       (simp add: tool_call_new_row_get dumps_if_def)
qed


text \<open>The result \<^verbatim>\<open>0\<close> and the execution time \<^verbatim>\<open>0\<close> are both stored as null.\<close>

theorem log_tool_call_stores_truthy_only_witness:
  "fst (log_tool_call (\<lambda>v. ''0'') ''c1'' ''2025-03-01T10:00:00'' ''2025-03-01'' ''t'' (PDict [])
          (PInt 0) ''success'' (Some 0) None None \<lparr>tool_calls = [], tool_usage_stats = []\<rparr>)
     = Inr (PStr ''c1'') \<and>
   map (\<lambda>r. (row_get r ''result'', row_get r ''execution_time_ms''))
     (tool_calls (snd (log_tool_call (\<lambda>v. ''0'') ''c1'' ''2025-03-01T10:00:00'' ''2025-03-01''
          ''t'' (PDict []) (PInt 0) ''success'' (Some 0) None None
          \<lparr>tool_calls = [], tool_usage_stats = []\<rparr>)))
     = [(Null, Null)]"
proof -
  have fresh: "\<forall>r \<in> set (tool_calls \<lparr>tool_calls = [], tool_usage_stats = []\<rparr>).
                 row_get r ''call_id'' \<noteq> Text ''c1''"
    by simp
  have time: "bindable (bind_time (Some 0))" by simp
  from log_tool_call_stores_truthy_only [OF fresh time, of "\<lambda>v. ''0''" "''2025-03-01T10:00:00''"
      "''2025-03-01''" "''t''" "PDict []" "PInt 0" "''success''" None None]
  obtain db' new where
    r: "log_tool_call (\<lambda>v. ''0'') ''c1'' ''2025-03-01T10:00:00'' ''2025-03-01'' ''t'' (PDict [])
          (PInt 0) ''success'' (Some 0) None None \<lparr>tool_calls = [], tool_usage_stats = []\<rparr>
        = (Inr (PStr ''c1''), db')"
    and tc: "tool_calls db' = [new]"
    and res: "row_get new ''result'' = Null"
    and tm: "row_get new ''execution_time_ms'' = Null"
    by auto
  show ?thesis by (simp add: r tc res tm)
qed

text \<open>
  C4 at the status the dispatcher records for a failed call: \<^verbatim>\<open>_update_tool_stats\<close> adds
  to \<^verbatim>\<open>success_count\<close> for "success" and to \<^verbatim>\<open>failure_count\<close> for "failure" only, so
  two calls logged with status "error" leave a row with \<^verbatim>\<open>call_count\<close> 2 and both other
  counters 0.
\<close>

theorem failed_calls_counted_in_neither_counter:
  "tool_usage_stats
     (snd (log_tool_call (\<lambda>v. ''{}'') ''c2'' ''2025-03-01T10:00:05'' ''2025-03-01''
             ''search_memories'' (PDict []) PNone ''error'' None (Some ''boom'') None
        (snd (log_tool_call (\<lambda>v. ''{}'') ''c1'' ''2025-03-01T10:00:00'' ''2025-03-01''
                ''search_memories'' (PDict []) PNone ''error'' None (Some ''boom'') None
                \<lparr>tool_calls = [], tool_usage_stats = []\<rparr>))))
   = [[(''tool_name'', Text ''search_memories''), (''date'', Text ''2025-03-01''),
       (''call_count'', Integer 2), (''success_count'', Integer 0),
       (''failure_count'', Integer 0)]]"
  by (simp add: log_tool_call_def update_tool_stats_def execute_insert_def execute_query_def
      execute_update_set_def update_row_def missing_columns_def query_columns_def
      query_params_def apply_limit_def apply_order_def tool_calls_schema_def
      tool_usage_stats_schema_def dumps_if_def pk_conflict_def insert_row_def row_get_def
      Let_def)

text \<open>
  The status \<^verbatim>\<open>handle_mcp_request\<close> passes to \<^verbatim>\<open>log_tool_call\<close> when the invoked method
  raises is "error".
\<close>

lemma dispatcher_records_failure_as_error:
  "snd (handle_mcp_request recording_system
          \<lparr>req_tool = Some ''search_memories'',
           req_parameters = Some (PDict [(''query'', PStr ''x'')])\<rparr> PNone [])
   = [[PStr ''search_memories'', PDict [(''query'', PStr ''x'')], PNone, PStr ''error'', PNone,
       PStr ''Method search_memories not available on memory system'', PNone]]"
  by (simp add: handle_mcp_request_def request_params_def py_or_def dispatch_def
      tool_search_memories_def call_method_def log_call_def recording_system_def
      try_except_def seq_def lift_def ret_def raise_def await_exn_def Let_def)

text \<open>
  For the statuses "success" and "failure" every call keeps the counters of every row
  adding up.
\<close>

lemma map_of_map_entries:
  "map_of (map (\<lambda>(c, v). (c, g c v)) r) k = map_option (g k) (map_of r k)"
  by (induction r) auto

lemma row_get_update_row:
  "row_get (update_row sets r) k =
     (case map_of r k of None \<Rightarrow> Null
      | Some v \<Rightarrow> (case map_of sets k of Some f \<Rightarrow> f r | None \<Rightarrow> v))"
  by (simp add: row_get_def update_row_def map_of_map_entries split: option.splits)

lemma row_get_Integer: "row_get r k = Integer i \<Longrightarrow> map_of r k = Some (Integer i)"
  by (auto simp: row_get_def split: option.splits)

lemma stats_update_consistent:
  assumes st: "status = ''success'' \<or> status = ''failure''" and ok: "stats_row_consistent r"
  shows "stats_row_consistent (update_row
     [(''call_count'', \<lambda>r. sql_add (row_get r ''call_count'') (Integer 1)),
      (''success_count'', \<lambda>r. sql_add (row_get r ''success_count'')
          (Integer (if sql_eq (Text status) (Text ''success'') then 1 else 0))),
      (''failure_count'', \<lambda>r. sql_add (row_get r ''failure_count'')
          (Integer (if sql_eq (Text status) (Text ''failure'') then 1 else 0)))] r)"
proof -
  from ok obtain c s f where
    c: "row_get r ''call_count'' = Integer c" and s: "row_get r ''success_count'' = Integer s"
    and f: "row_get r ''failure_count'' = Integer f" and e: "c = s + f"
    by (auto simp: stats_row_consistent_def split: sqlval.splits)
  note m = row_get_Integer [OF c] row_get_Integer [OF s] row_get_Integer [OF f]
  from st e show ?thesis
    by (auto simp: stats_row_consistent_def row_get_update_row m c s f)
qed

lemma stats_update_rows:
  "execute_update_set tool_usage_stats_schema rws
     [(''call_count'', f1), (''success_count'', f2), (''failure_count'', f3)]
     [Eq ''tool_name'' (Text tn), Eq ''date'' (Text today)]
   = Inr (map (\<lambda>r. if row_get r ''tool_name'' = Text tn \<and> row_get r ''date'' = Text today
                     then update_row [(''call_count'', f1), (''success_count'', f2),
                                      (''failure_count'', f3)] r
                     else r) rws)"
  by (simp add: execute_update_set_def missing_columns_def tool_usage_stats_schema_def
      sql_eq_Text)

lemma update_tool_stats_keeps_consistent:
  assumes st: "status = ''success'' \<or> status = ''failure''"
      and inv: "list_all stats_row_consistent (tool_usage_stats db)"
  shows "list_all stats_row_consistent (tool_usage_stats (snd (update_tool_stats today tn status db)))"
proof (cases "filter (\<lambda>r. row_get r ''tool_name'' = Text tn \<and> row_get r ''date'' = Text today)
                (tool_usage_stats db)")
  case Nil
  have new: "stats_row_consistent (insert_row tool_usage_stats_schema
           [''tool_name'', ''date'', ''call_count'', ''success_count'', ''failure_count'']
           [Text tn, Text today, Integer 1, Integer (if status = ''success'' then 1 else 0),
            Integer (if status = ''failure'' then 1 else 0)])"
    using st by (auto simp: stats_row_consistent_def insert_row_def tool_usage_stats_schema_def
        row_get_def)
  show ?thesis
    using inv new
    by (simp add: update_tool_stats_def stats_query_rows Nil stats_insert_ok [OF Nil])
next
  case (Cons r rs)
  show ?thesis
    using inv stats_update_consistent [OF st]
    by (auto simp: update_tool_stats_def stats_query_rows Cons stats_update_rows list_all_iff)
qed


section \<open>Storing messages\<close>

text \<open>
  C2 at \<^verbatim>\<open>store_message("hi", "user", session_id="S")\<close> of \<^verbatim>\<open>llama-ai-memory\<close>: the
  duplicate query names the column \<^verbatim>\<open>session_id\<close>, which the \<^verbatim>\<open>messages\<close> table does not
  have, so the call raises on every database and stores nothing.
\<close>

theorem store_message_with_session_raises:
  "store_message json_dumps now hour_ago uuid_message uuid_session uuid_conversation
     ''hi'' ''user'' (Some ''S'') conversation_id metadata db
   = (Inl (OperationalError ''no such column: session_id''), db)"
  by (simp add: store_message_def execute_query_def missing_columns_def query_columns_def
      messages_schema_def Let_def)

text \<open>
  C9 at \<^verbatim>\<open>store_message("hi", "user")\<close> of \<^verbatim>\<open>ai-memory-llm-integration\<close>: no identifier
  is generated for the session or the conversation; the message is stored with a null
  conversation id, and both ids come back as \<^verbatim>\<open>None\<close>.
\<close>

theorem store_message_integration_returns_no_ids:
  "store_message_integration json_dumps ''2025-03-01T10:00:00'' ''m1'' ''hi'' ''user'' None None
     PNone \<lparr>messages = [], conversations = []\<rparr>
   = (Inr (PDict [(''message_id'', PStr ''m1''), (''conversation_id'', PNone),
                  (''session_id'', PNone)]),
      \<lparr>messages = [[(''message_id'', Text ''m1''), (''conversation_id'', Null),
                     (''timestamp'', Text ''2025-03-01T10:00:00''), (''role'', Text ''user''),
                     (''content'', Text ''hi''), (''metadata'', Null)]],
       conversations = []\<rparr>)"
  by (simp add: store_message_integration_def execute_insert_def missing_columns_def
      messages_schema_def message_insert_columns_def dumps_if_def insert_row_def Let_def)

text \<open>
  \<^verbatim>\<open>store_message\<close> of \<^verbatim>\<open>llama-ai-memory\<close>, called without a session and without a
  conversation and with a message id that is not stored yet, stores the message under
  the generated conversation id and returns the generated ids.
\<close>

lemma store_message_generates_ids:
  assumes "\<not> truthy_str session_id" and "\<not> truthy_str conversation_id"
      and "\<forall>r \<in> set (messages db). row_get r ''message_id'' \<noteq> Text uuid_message"
  shows "store_message json_dumps now hour_ago uuid_message uuid_session uuid_conversation
           content role session_id conversation_id metadata db
         = (Inr (PDict [(''message_id'', PStr uuid_message),
                        (''conversation_id'', PStr uuid_conversation),
                        (''session_id'', PStr uuid_session), (''duplicate'', PBool False)]),
            db\<lparr>messages := messages db @
              [[(''message_id'', Text uuid_message), (''conversation_id'', Text uuid_conversation),
                (''timestamp'', Text now), (''role'', Text role), (''content'', Text content),
                (''metadata'', dumps_if json_dumps metadata)]]\<rparr>)"
proof -
  have "\<not> list_ex (pk_conflict messages_schema
          (insert_row messages_schema message_insert_columns
             [Text uuid_message, Text uuid_conversation, Text now, Text role, Text content,
              dumps_if json_dumps metadata])) (messages db)"
    using assms(3)
    by (auto simp: list_ex_iff pk_conflict_def messages_schema_def insert_row_def
        message_insert_columns_def row_get_def sql_eq_Text)
  moreover have "bindable (dumps_if json_dumps metadata)" by (simp add: dumps_if_def)
  ultimately show ?thesis
    using assms(1,2)
    by (simp add: store_message_def store_message_insert_def execute_insert_def
        missing_columns_def messages_schema_def message_insert_columns_def insert_row_def
        Let_def)
qed

end
